theory Spec2Isabelle
  imports Complex_Main "HOL-Library.Word"
begin

unbundle bit_operations_syntax

section \<open>The navigation engine (autonav.c)\<close>

text \<open>
  The engine keeps its state in file-level statics; here they are the fields of one
  record that every operation takes and returns. C \<open>float\<close> values are modelled by
  \<open>real\<close> numbers (exact arithmetic, no rounding, no NaN); \<open>uint16_t\<close>, \<open>uint8_t\<close>,
  \<open>uint32_t\<close> and \<open>uint64_t\<close> are words of that width.

  The microsecond clock \<open>esp_timer_get_time()\<close> is an input: every call of \<open>nowUs()\<close>
  that an operation makes is a parameter of the model, in the order the calls happen.
  A sensor read is \<open>Some mm\<close> when the hook returns true and \<open>None\<close> when it
  returns false.
\<close>

datatype autonav_state_t =
    AUTONAV_IDLE
  | AUTONAV_RUNNING
  | AUTONAV_HOLD_OBSTACLE
  | AUTONAV_LANDING
  | AUTONAV_LANDED
  | AUTONAV_OVERRIDE

record nav =
  s_state :: autonav_state_t
  s_targetAltMm :: "16 word"
  s_shapeId :: "8 word"
  shapeStartUs :: "64 word"
  s_lastCmdUs :: "64 word"
  s_obstEnterUs :: "64 word"
  z_i :: real
  z_prevErr :: real
  altFilt :: real

text \<open>\<open>setpoint_t\<close> as tools/sim/include/stabilizer.h declares it.\<close>

record setpoint_t =
  velocity_x :: real
  velocity_y :: real
  velocity_z :: real
  velocity_body :: bool
  velocity_valid :: bool
  thrust :: "16 word"

text \<open>\<open>memset(&sp, 0, sizeof(sp))\<close>.\<close>

definition sp_zero :: setpoint_t where
  "sp_zero = \<lparr>velocity_x = 0, velocity_y = 0, velocity_z = 0,
              velocity_body = False, velocity_valid = False, thrust = 0\<rparr>"

definition AUTONAV_DEFAULT_ALT_MM :: "16 word" where "AUTONAV_DEFAULT_ALT_MM = 1200"
definition SAFETY_TIMEOUT_MS :: "64 word" where "SAFETY_TIMEOUT_MS = 30000"
definition OBSTACLE_THR_MM :: "16 word" where "OBSTACLE_THR_MM = 800"
definition OBSTACLE_MAX_WAIT_MS :: "64 word" where "OBSTACLE_MAX_WAIT_MS = 30000"
definition LOOP_DT_S :: real where "LOOP_DT_S = 0.01"
definition HOVER_THRUST_BASE :: real where "HOVER_THRUST_BASE = 30000"
definition Z_KP :: real where "Z_KP = 1"
definition Z_KI :: real where "Z_KI = 0.04"
definition Z_KD :: real where "Z_KD = 0.08"
definition SEGMENT_TIME_MS :: "32 word" where "SEGMENT_TIME_MS = 3000"
definition SHAPE_SPEED :: real where "SHAPE_SPEED = 0.2"

text \<open>The statics as the file initialises them, before \<open>autonavInit\<close> runs.\<close>

definition nav_static :: nav where
  "nav_static = \<lparr>s_state = AUTONAV_IDLE, s_targetAltMm = AUTONAV_DEFAULT_ALT_MM,
     s_shapeId = 0, shapeStartUs = 0, s_lastCmdUs = 0, s_obstEnterUs = 0,
     z_i = 0, z_prevErr = 0, altFilt = 1200\<rparr>"

text \<open>\<open>msSince(t0)\<close> with the value \<open>now\<close> that its call of \<open>nowUs()\<close> returns:
  an unsigned 64-bit subtraction (it wraps) and an unsigned division.\<close>

definition msSince :: "64 word \<Rightarrow> 64 word \<Rightarrow> 64 word" where
  "msSince now t0 = (now - t0) div 1000"

definition autonavSetTargetAltMm :: "16 word \<Rightarrow> nav \<Rightarrow> nav" where
  "autonavSetTargetAltMm mm s = s\<lparr>s_targetAltMm := mm\<rparr>"

definition autonavGetState :: "nav \<Rightarrow> autonav_state_t" where
  "autonavGetState s = s_state s"

definition autonavKickSafety :: "64 word \<Rightarrow> nav \<Rightarrow> nav" where
  "autonavKickSafety now s = s\<lparr>s_lastCmdUs := now\<rparr>"

definition autonavEnterOverride :: "nav \<Rightarrow> nav" where
  "autonavEnterOverride s = s\<lparr>s_state := AUTONAV_OVERRIDE\<rparr>"

definition autonavExitOverride :: "64 word \<Rightarrow> nav \<Rightarrow> nav" where
  "autonavExitOverride now s = s\<lparr>s_lastCmdUs := now, s_state := AUTONAV_RUNNING\<rparr>"

definition autonavIsOverride :: "nav \<Rightarrow> bool" where
  "autonavIsOverride s = (s_state s = AUTONAV_OVERRIDE)"

text \<open>\<open>autonavInit\<close>; the start of the listener task leaves the engine state alone.\<close>

definition autonavInit :: "64 word \<Rightarrow> nav \<Rightarrow> nav" where
  "autonavInit now s =
     s\<lparr>s_state := AUTONAV_IDLE, s_targetAltMm := AUTONAV_DEFAULT_ALT_MM, s_shapeId := 0,
       s_lastCmdUs := now, s_obstEnterUs := 0, z_i := 0, z_prevErr := 0,
       altFilt := real (unat AUTONAV_DEFAULT_ALT_MM)\<rparr>"

text \<open>\<open>autonavStartShape\<close> reads the clock twice: \<open>now0\<close> for the start of the
  shape, \<open>now1\<close> inside \<open>autonavKickSafety\<close>.\<close>

definition autonavStartShape :: "64 word \<Rightarrow> 64 word \<Rightarrow> 8 word \<Rightarrow> nav \<Rightarrow> nav" where
  "autonavStartShape now0 now1 shapeId s =
     autonavKickSafety now1
       (s\<lparr>s_shapeId := shapeId, s_state := AUTONAV_RUNNING, shapeStartUs := now0\<rparr>)"

definition autonavStop :: "nav \<Rightarrow> nav" where
  "autonavStop s = s\<lparr>s_shapeId := 0, s_state := AUTONAV_IDLE\<rparr>"

text \<open>The cast \<open>(uint16_t)x\<close> of a float: the fraction is dropped (towards zero) and
  the integer is stored in 16 bits. The engine only casts values between 20000 and 65000.\<close>

definition float_to_u16 :: "real \<Rightarrow> 16 word" where
  "float_to_u16 x = word_of_int (if x < 0 then - \<lfloor>- x\<rfloor> else \<lfloor>x\<rfloor>)"

text \<open>\<open>zHoldThrustCmd\<close>: the result is the thrust, the flag written to \<open>tofOkOut\<close> and
  the engine state with the controller's statics updated.\<close>

definition zHoldThrustCmd :: "16 word option \<Rightarrow> nav \<Rightarrow> 16 word \<times> bool \<times> nav" where
  "zHoldThrustCmd down s =
     (case down of
        None \<Rightarrow> (float_to_u16 (HOVER_THRUST_BASE * 0.93), False, s)
      | Some altMm \<Rightarrow>
          (let altFilt' = 0.9 * altFilt s + 0.1 * real (unat altMm);
               err = real (unat (s_targetAltMm s)) - altFilt';
               zi0 = z_i s + err * LOOP_DT_S;
               zi1 = (if zi0 > 400 then 400 else zi0);
               zi2 = (if zi1 < - 400 then - 400 else zi1);
               z_d = (err - z_prevErr s) / LOOP_DT_S;
               thrust0 = HOVER_THRUST_BASE + (Z_KP * err + Z_KI * zi2 + Z_KD * z_d);
               thrust1 = (if thrust0 < 20000 then 20000 else thrust0);
               thrust2 = (if thrust1 > 65000 then 65000 else thrust1)
           in (float_to_u16 thrust2, True,
               s\<lparr>altFilt := altFilt', z_i := zi2, z_prevErr := err\<rparr>)))"

text \<open>\<open>commandLand\<close>: the setpoint is zeroed and the state becomes \<open>LANDING\<close>.\<close>

definition commandLand :: "setpoint_t \<Rightarrow> nav \<Rightarrow> setpoint_t \<times> nav" where
  "commandLand sp s = (sp_zero\<lparr>thrust := 0\<rparr>, s\<lparr>s_state := AUTONAV_LANDING\<rparr>)"

text \<open>Step 1 of \<open>autonavUpdate\<close>, the safety timeout; \<open>now\<close> is the clock value its
  \<open>msSince\<close> reads.\<close>

definition safetyCheck :: "64 word \<Rightarrow> nav \<Rightarrow> nav" where
  "safetyCheck now s =
     (if msSince now (s_lastCmdUs s) > SAFETY_TIMEOUT_MS
         \<and> s_state s \<noteq> AUTONAV_LANDING \<and> s_state s \<noteq> AUTONAV_LANDED
      then s\<lparr>s_state := AUTONAV_LANDING\<rparr> else s)"

text \<open>\<open>cosf\<close> and \<open>sinf\<close> of the C library, as the cosine and sine of the
  reals; they have no code equations, so the oval is the one shape that does not
  evaluate.\<close>

definition cosf :: "real \<Rightarrow> real" where [code del]: "cosf x = cos x"
definition sinf :: "real \<Rightarrow> real" where [code del]: "sinf x = sin x"

text \<open>The shape logic of the \<open>RUNNING\<close> case: \<open>switch (s_shapeId)\<close> on the elapsed
  milliseconds \<open>tMs\<close>, a \<open>uint32_t\<close>. A shape id without a case leaves the velocity
  as it is.\<close>

definition shapeVelocity :: "8 word \<Rightarrow> 32 word \<Rightarrow> setpoint_t \<Rightarrow> setpoint_t" where
  "shapeVelocity shapeId tMs sp =
     (let seg = tMs div SEGMENT_TIME_MS in
      if shapeId = 1 then
        (let seg = seg mod 4;
             sp = (if seg = 0 then sp\<lparr>velocity_x := SHAPE_SPEED, velocity_y := 0\<rparr> else sp);
             sp = (if seg = 1 then sp\<lparr>velocity_x := 0, velocity_y := SHAPE_SPEED\<rparr> else sp);
             sp = (if seg = 2 then sp\<lparr>velocity_x := - SHAPE_SPEED, velocity_y := 0\<rparr> else sp);
             sp = (if seg = 3 then sp\<lparr>velocity_x := 0, velocity_y := - SHAPE_SPEED\<rparr> else sp)
         in sp)
      else if shapeId = 2 then
        (let seg = seg mod 4;
             sp = (if seg = 0 then sp\<lparr>velocity_x := SHAPE_SPEED, velocity_y := 0\<rparr> else sp);
             sp = (if seg = 1 then sp\<lparr>velocity_x := 0, velocity_y := SHAPE_SPEED / 2\<rparr> else sp);
             sp = (if seg = 2 then sp\<lparr>velocity_x := - SHAPE_SPEED, velocity_y := 0\<rparr> else sp);
             sp = (if seg = 3 then sp\<lparr>velocity_x := 0, velocity_y := - SHAPE_SPEED / 2\<rparr> else sp)
         in sp)
      else if shapeId = 3 then
        (let seg = seg mod 3;
             sp = (if seg = 0 then sp\<lparr>velocity_x := SHAPE_SPEED, velocity_y := 0\<rparr> else sp);
             sp = (if seg = 1
                   then sp\<lparr>velocity_x := - SHAPE_SPEED / 2, velocity_y := SHAPE_SPEED * 0.87\<rparr>
                   else sp);
             sp = (if seg = 2
                   then sp\<lparr>velocity_x := - SHAPE_SPEED / 2, velocity_y := - SHAPE_SPEED * 0.87\<rparr>
                   else sp)
         in sp)
      else if shapeId = 4 then
        sp\<lparr>velocity_x := SHAPE_SPEED * cosf (real (unat tMs) / 1000),
           velocity_y := (SHAPE_SPEED / 2) * sinf (real (unat tMs) / 1000)\<rparr>
      else sp)"

text \<open>
  \<open>autonavUpdate(tickMs)\<close>. \<open>now0\<close> is the clock value read by the safety check;
  \<open>now1\<close> is the value of the one later read that the taken branch makes (the kick in
  override, the obstacle-entry stamp, the shape time, or the obstacle wait). \<open>down\<close>
  and \<open>front\<close> are the two sensor reads. The second component of the result is the
  call of \<open>commanderSetSetpoint\<close>: \<open>None\<close> when the function returns without it.
\<close>

definition autonavUpdate ::
  "64 word \<Rightarrow> 64 word \<Rightarrow> 16 word option \<Rightarrow> 16 word option \<Rightarrow> 32 word \<Rightarrow> nav
     \<Rightarrow> nav \<times> (setpoint_t \<times> 32 word) option" where
  "autonavUpdate now0 now1 down front tickMs s0 =
     (let s1 = safetyCheck now0 s0;
          sp = sp_zero;
          (thr, zOk, s) = zHoldThrustCmd down s1;
          blocked = (case front of None \<Rightarrow> False | Some frontMm \<Rightarrow> frontMm < OBSTACLE_THR_MM)
      in if s_state s = AUTONAV_OVERRIDE then (autonavKickSafety now1 s, None)
         else
           (case s_state s of
              AUTONAV_IDLE \<Rightarrow> (s, Some (sp\<lparr>thrust := 0\<rparr>, tickMs))
            | AUTONAV_RUNNING \<Rightarrow>
                (if blocked
                 then (s\<lparr>s_state := AUTONAV_HOLD_OBSTACLE, s_obstEnterUs := now1\<rparr>,
                       Some (sp, tickMs))
                 else (s, Some (shapeVelocity (s_shapeId s)
                                  (ucast (msSince now1 (shapeStartUs s)))
                                  (sp\<lparr>thrust := thr\<rparr>), tickMs)))
            | AUTONAV_HOLD_OBSTACLE \<Rightarrow>
                (if \<not> blocked then (s\<lparr>s_state := AUTONAV_RUNNING\<rparr>, Some (sp\<lparr>thrust := thr\<rparr>, tickMs))
                 else if msSince now1 (s_obstEnterUs s) > OBSTACLE_MAX_WAIT_MS
                   then (s\<lparr>s_state := AUTONAV_LANDING\<rparr>, Some (sp\<lparr>thrust := thr\<rparr>, tickMs))
                 else (s, Some (sp\<lparr>thrust := thr\<rparr>, tickMs)))
            | AUTONAV_LANDING \<Rightarrow>
                (let (sp', s') = commandLand sp s
                 in (s'\<lparr>s_state := AUTONAV_LANDED\<rparr>, Some (sp', tickMs)))
            | AUTONAV_LANDED \<Rightarrow> (s, Some (sp\<lparr>thrust := 0\<rparr>, tickMs))
            | AUTONAV_OVERRIDE \<Rightarrow> (s, Some (sp, tickMs))))"

text \<open>Repeated calls of \<open>autonavUpdate\<close>, as the loops of the simulators and of the
  stabilizer task make them: one entry per call (the two clock values, the two sensor
  reads, the tick), the outputs collected in order.\<close>

type_synonym update_in = "64 word \<times> 64 word \<times> 16 word option \<times> 16 word option \<times> 32 word"

fun autonavUpdates ::
  "update_in list \<Rightarrow> nav \<Rightarrow> nav \<times> (setpoint_t \<times> 32 word) option list" where
  "autonavUpdates [] s = (s, [])"
| "autonavUpdates ((now0, now1, down, front, tickMs) # ins) s =
     (let (s', out) = autonavUpdate now0 now1 down front tickMs s;
          (s'', outs) = autonavUpdates ins s'
      in (s'', out # outs))"

section \<open>The wire-command handler (autonav_crtp.c, autonav_crtp.h)\<close>

text \<open>
  Modelled from the spec: the packet type \<open>CRTPPacket\<close> of crtp.h is not among the
  sources. A packet has a size, a logical port, a channel and a fixed array of data
  bytes. The list \<open>data\<close> holds the leading bytes of the array; the bytes behind it
  are zero, as the receive loop zero-initialises the packet (\<open>CRTPPacket pk = {0}\<close>).
\<close>

record CRTPPacket =
  size_pk :: "8 word"
  port :: "8 word"
  channel :: "8 word"
  data :: "8 word list"

definition byte_at :: "8 word list \<Rightarrow> nat \<Rightarrow> 8 word" where
  "byte_at bs i = (if i < length bs then bs ! i else 0)"

definition AUTONAV_CRTP_PORT :: "8 word" where "AUTONAV_CRTP_PORT = 0x0D"
definition AUTONAV_CRTP_CH :: "8 word" where "AUTONAV_CRTP_CH = 0"

definition AUTONAV_CMD_STOP :: "8 word" where "AUTONAV_CMD_STOP = 0"
definition AUTONAV_CMD_SQUARE :: "8 word" where "AUTONAV_CMD_SQUARE = 1"
definition AUTONAV_CMD_RECT :: "8 word" where "AUTONAV_CMD_RECT = 2"
definition AUTONAV_CMD_OVAL :: "8 word" where "AUTONAV_CMD_OVAL = 3"
definition AUTONAV_CMD_TRI :: "8 word" where "AUTONAV_CMD_TRI = 4"
definition AUTONAV_CMD_SET_ALT_MM :: "8 word" where "AUTONAV_CMD_SET_ALT_MM = 5"
definition AUTONAV_CMD_OVERRIDE_ON :: "8 word" where "AUTONAV_CMD_OVERRIDE_ON = 10"
definition AUTONAV_CMD_OVERRIDE_OFF :: "8 word" where "AUTONAV_CMD_OVERRIDE_OFF = 11"

text \<open>\<open>autonav_status_t\<close>, a packed struct of three bytes.\<close>

record autonav_status_t =
  state :: "8 word"
  altMm :: "16 word"

text \<open>\<open>memcpy(out.data, &s, sizeof(s))\<close> on the little-endian target.\<close>

definition status_bytes :: "autonav_status_t \<Rightarrow> 8 word list" where
  "status_bytes st = [state st, ucast (altMm st), ucast (drop_bit 8 (altMm st))]"

text \<open>The cast \<open>(uint8_t)autonavGetState()\<close>: the enumerators count from 0.\<close>

fun state_code :: "autonav_state_t \<Rightarrow> 8 word" where
  "state_code AUTONAV_IDLE = 0"
| "state_code AUTONAV_RUNNING = 1"
| "state_code AUTONAV_HOLD_OBSTACLE = 2"
| "state_code AUTONAV_LANDING = 3"
| "state_code AUTONAV_LANDED = 4"
| "state_code AUTONAV_OVERRIDE = 5"

text \<open>\<open>u16le(p)\<close> on the two bytes \<open>p[0]\<close> and \<open>p[1]\<close>: both are promoted to
  \<open>int\<close>, combined, and the result is cast to \<open>uint16_t\<close>.\<close>

definition u16le :: "8 word \<Rightarrow> 8 word \<Rightarrow> 16 word" where
  "u16le p0 p1 = ucast ((ucast p0 :: 32 word) OR push_bit 8 (ucast p1 :: 32 word))"

text \<open>
  \<open>autonav_handle_packet(pk)\<close>, as compiled where crtp.h is present. \<open>pko\<close> is
  \<open>None\<close> for a null pointer. \<open>now0\<close>, \<open>now1\<close>, \<open>now2\<close> are the clock values of
  the first, second and third call of \<open>nowUs()\<close> that the taken branch makes (a shape
  command makes three: two in \<open>autonavStartShape\<close>, one in the kick after it). \<open>down\<close>
  is the read of the down-facing sensor for the status; an invalid read leaves the
  local \<open>alt\<close> at 0. The second component of the result is the packet given to
  \<open>crtpSendPacketBlock\<close>, \<open>None\<close> when the handler returns before it.
\<close>

definition autonav_handle_packet ::
  "64 word \<Rightarrow> 64 word \<Rightarrow> 64 word \<Rightarrow> 16 word option \<Rightarrow> CRTPPacket option \<Rightarrow> nav
     \<Rightarrow> nav \<times> CRTPPacket option" where
  "autonav_handle_packet now0 now1 now2 down pko s =
     (case pko of
        None \<Rightarrow> (s, None)
      | Some pk \<Rightarrow>
          if port pk \<noteq> AUTONAV_CRTP_PORT then (s, None)
          else if channel pk \<noteq> AUTONAV_CRTP_CH then (s, None)
          else if size_pk pk < 1 then (s, None)
          else
            (let cmd = byte_at (data pk) 0;
                 s' =
                   (if cmd = AUTONAV_CMD_STOP then autonavKickSafety now0 (autonavStop s)
                    else if cmd = AUTONAV_CMD_SQUARE
                      then autonavKickSafety now2 (autonavStartShape now0 now1 1 s)
                    else if cmd = AUTONAV_CMD_RECT
                      then autonavKickSafety now2 (autonavStartShape now0 now1 2 s)
                    else if cmd = AUTONAV_CMD_OVAL
                      then autonavKickSafety now2 (autonavStartShape now0 now1 3 s)
                    else if cmd = AUTONAV_CMD_TRI
                      then autonavKickSafety now2 (autonavStartShape now0 now1 4 s)
                    else if cmd = AUTONAV_CMD_SET_ALT_MM
                      then (if size_pk pk \<ge> 3
                            then autonavKickSafety now0
                                   (autonavSetTargetAltMm
                                      (u16le (byte_at (data pk) 1) (byte_at (data pk) 2)) s)
                            else s)
                    else if cmd = AUTONAV_CMD_OVERRIDE_ON
                      then autonavKickSafety now0 (autonavEnterOverride s)
                    else if cmd = AUTONAV_CMD_OVERRIDE_OFF
                      then autonavKickSafety now0 s
                    else s);
                 st = \<lparr>state = state_code (autonavGetState s'),
                       altMm = (case down of None \<Rightarrow> 0 | Some alt \<Rightarrow> alt)\<rparr>
             in (s', Some \<lparr>size_pk = 3, port = AUTONAV_CRTP_PORT, channel = AUTONAV_CRTP_CH,
                           data = status_bytes st\<rparr>)))"

section \<open>Predicates used in the statements\<close>

text \<open>A sequence of update calls keeps the safety timer alive when each call's safety
  check finds at most \<open>SAFETY_TIMEOUT_MS\<close> whole milliseconds elapsed since the
  timestamp \<open>kick\<close> left by the call before it (in override that is the clock value
  \<open>now1\<close> of its kick).\<close>

fun kept_alive :: "64 word \<Rightarrow> update_in list \<Rightarrow> bool" where
  "kept_alive kick [] = True"
| "kept_alive kick ((now0, now1, down, front, tickMs) # ins) =
     (msSince now0 kick \<le> SAFETY_TIMEOUT_MS \<and> kept_alive now1 ins)"

section \<open>Properties\<close>

subsection \<open>The altitude controller and the byte helpers\<close>

lemma u16le_plus:
  "(ucast (lo :: 8 word) :: 32 word) OR push_bit 8 (ucast (hi :: 8 word))
     = ucast lo + push_bit 8 (ucast hi)"
  by (rule disjunctive_add[symmetric]) (auto simp: bit_simps dest: bit_imp_le_length)

lemma unat_u16le: "unat (u16le lo hi) = unat lo + 256 * unat hi"
proof -
  have lo: "unat lo < 256" and hi: "unat hi < 256"
    using unsigned_less[of lo] unsigned_less[of hi] by simp_all
  have a: "unat (ucast lo :: 32 word) = unat lo"
    using lo by (simp add: unsigned_ucast_eq take_bit_eq_mod)
  have b: "unat (ucast hi :: 32 word) = unat hi"
    using hi by (simp add: unsigned_ucast_eq take_bit_eq_mod)
  have c: "unat (push_bit 8 (ucast hi :: 32 word)) = 256 * unat hi"
    using hi b by (simp add: push_bit_eq_mult unat_word_ariths)
  have d: "unat ((ucast lo :: 32 word) + push_bit 8 (ucast hi)) = unat lo + 256 * unat hi"
    using lo hi a c by (simp add: unat_word_ariths)
  show ?thesis
    using lo hi d by (simp add: u16le_def u16le_plus unsigned_ucast_eq take_bit_eq_mod)
qed

lemma u16le_bytes: "u16le (ucast v) (ucast (drop_bit 8 v)) = (v :: 16 word)"
  apply (simp add: u16le_def)
  apply (rule bit_word_eqI)
  apply (auto simp: bit_simps)
  done

lemma float_to_u16_range:
  assumes "20000 \<le> x" "x \<le> 65000"
  shows "20000 \<le> unat (float_to_u16 x) \<and> unat (float_to_u16 x) \<le> 65000"
proof -
  have a: "20000 \<le> \<lfloor>x\<rfloor>" using assms by (simp add: le_floor_iff)
  have b: "\<lfloor>x\<rfloor> \<le> 65000" using assms by (simp add: floor_le_iff)
  have c: "unat (word_of_int \<lfloor>x\<rfloor> :: 16 word) = nat \<lfloor>x\<rfloor>"
    using a b by (simp add: unat_eq_nat_uint uint_word_of_int)
  have d: "20000 \<le> nat \<lfloor>x\<rfloor> \<and> nat \<lfloor>x\<rfloor> \<le> 65000" using a b by linarith
  have "float_to_u16 x = word_of_int \<lfloor>x\<rfloor>" using assms by (simp add: float_to_u16_def)
  then show ?thesis using c d by simp
qed

lemma zHold_z_i:
  "- 400 \<le> z_i (snd (snd (zHoldThrustCmd (Some mm) s)))
   \<and> z_i (snd (snd (zHoldThrustCmd (Some mm) s))) \<le> 400"
  by (simp add: zHoldThrustCmd_def Let_def)

lemma zHold_thrust:
  "20000 \<le> unat (fst (zHoldThrustCmd (Some mm) s))
   \<and> unat (fst (zHoldThrustCmd (Some mm) s)) \<le> 65000"
  by (simp add: zHoldThrustCmd_def Let_def float_to_u16_range)

lemma update_z_i:
  "z_i (fst (autonavUpdate now0 now1 down front tickMs s))
     = z_i (snd (snd (zHoldThrustCmd down (safetyCheck now0 s))))"
  by (simp add: autonavUpdate_def Let_def commandLand_def autonavKickSafety_def
        split: prod.splits autonav_state_t.splits option.splits)

text \<open>
  C8. When the down-facing sensor reports an invalid read, \<open>zHoldThrustCmd\<close> returns
  exactly 27900 (\<open>HOVER_THRUST_BASE * 0.93\<close>), reports the read as not ok, and leaves the
  whole engine state, so also the filtered altitude, the integral accumulator and the
  previous error, unchanged. The function has no failure result at all.
\<close>

theorem zHold_invalid_down:
  "zHoldThrustCmd None s = (27900, False, s)"
  by (simp add: zHoldThrustCmd_def float_to_u16_def HOVER_THRUST_BASE_def)

text \<open>
  C4. The controller clamps hold after every computation with a valid down-sensor
  reading \<open>mm\<close>, from every engine state \<open>s\<close> (so after any sequence of readings
  and target altitudes that led to \<open>s\<close>): the integral accumulator left by
  \<open>zHoldThrustCmd\<close> lies in [-400, 400] and the thrust it returns lies in
  [20000, 65000]; the accumulator left by a whole \<open>autonavUpdate\<close> call lies in
  [-400, 400] as well.
\<close>

theorem controller_clamps:
  "- 400 \<le> z_i (snd (snd (zHoldThrustCmd (Some mm) s)))
   \<and> z_i (snd (snd (zHoldThrustCmd (Some mm) s))) \<le> 400
   \<and> 20000 \<le> unat (fst (zHoldThrustCmd (Some mm) s))
   \<and> unat (fst (zHoldThrustCmd (Some mm) s)) \<le> 65000
   \<and> - 400 \<le> z_i (fst (autonavUpdate now0 now1 (Some mm) front tickMs s))
   \<and> z_i (fst (autonavUpdate now0 now1 (Some mm) front tickMs s)) \<le> 400"
  using zHold_z_i[of mm s] zHold_thrust[of mm s] zHold_z_i[of mm "safetyCheck now0 s"]
  by (simp add: update_z_i)

subsection \<open>The wire-command handler\<close>

lemmas crtp_defs = AUTONAV_CMD_STOP_def AUTONAV_CMD_SQUARE_def AUTONAV_CMD_RECT_def
  AUTONAV_CMD_OVAL_def AUTONAV_CMD_TRI_def AUTONAV_CMD_SET_ALT_MM_def
  AUTONAV_CMD_OVERRIDE_ON_def AUTONAV_CMD_OVERRIDE_OFF_def
  AUTONAV_CRTP_PORT_def AUTONAV_CRTP_CH_def

text \<open>
  C2. A packet on port 0x0D, channel 0 with at least one byte whose command code is
  \<open>OVERRIDE_OFF\<close> (11) changes the last-kick timestamp and nothing else: the engine state
  after the handler is the state before it with \<open>s_lastCmdUs\<close> set to the clock value,
  so the navigation state (an \<open>OVERRIDE\<close> stays \<open>OVERRIDE\<close>), the shape selector and
  the target altitude are unchanged. From \<open>OVERRIDE\<close> the result is still in override
  and differs from what \<open>autonavExitOverride\<close> would leave.
\<close>

theorem override_off_only_kicks:
  assumes "port pk = 0x0D" and "channel pk = 0" and "1 \<le> size_pk pk"
    and "byte_at (data pk) 0 = 11"
  shows "fst (autonav_handle_packet now0 now1 now2 down (Some pk) s) = s\<lparr>s_lastCmdUs := now0\<rparr>
    \<and> s_state (fst (autonav_handle_packet now0 now1 now2 down (Some pk) s)) = s_state s
    \<and> s_shapeId (fst (autonav_handle_packet now0 now1 now2 down (Some pk) s)) = s_shapeId s
    \<and> s_targetAltMm (fst (autonav_handle_packet now0 now1 now2 down (Some pk) s))
         = s_targetAltMm s
    \<and> s_lastCmdUs (fst (autonav_handle_packet now0 now1 now2 down (Some pk) s)) = now0
    \<and> (s_state s = AUTONAV_OVERRIDE \<longrightarrow>
          autonavIsOverride (fst (autonav_handle_packet now0 now1 now2 down (Some pk) s))
        \<and> fst (autonav_handle_packet now0 now1 now2 down (Some pk) s)
              \<noteq> autonavExitOverride now0 s)"
proof -
  have "\<not> size_pk pk < 1"
    using assms(3) by (simp add: word_less_nat_alt word_le_nat_alt)
  then have "fst (autonav_handle_packet now0 now1 now2 down (Some pk) s)
               = s\<lparr>s_lastCmdUs := now0\<rparr>"
    using assms
    by (simp add: autonav_handle_packet_def crtp_defs Let_def autonavKickSafety_def)
  moreover have "s\<lparr>s_lastCmdUs := now0\<rparr> \<noteq> autonavExitOverride now0 s"
    if "s_state s = AUTONAV_OVERRIDE"
  proof
    assume "s\<lparr>s_lastCmdUs := now0\<rparr> = autonavExitOverride now0 s"
    then have "s_state (s\<lparr>s_lastCmdUs := now0\<rparr>) = s_state (autonavExitOverride now0 s)"
      by simp
    then show False using that by (simp add: autonavExitOverride_def)
  qed
  ultimately show ?thesis
    by (simp add: autonavIsOverride_def)
qed

theorem override_off_only_kicks_witness:
  "fst (autonav_handle_packet 7000 0 0 None
          (Some \<lparr>size_pk = 1, port = 0x0D, channel = 0, data = [11]\<rparr>)
          (autonavEnterOverride nav_static))
     = (autonavEnterOverride nav_static)\<lparr>s_lastCmdUs := 7000\<rparr>
   \<and> s_state (fst (autonav_handle_packet 7000 0 0 None
          (Some \<lparr>size_pk = 1, port = 0x0D, channel = 0, data = [11]\<rparr>)
          (autonavEnterOverride nav_static))) = AUTONAV_OVERRIDE
   \<and> fst (autonav_handle_packet 7000 0 0 None
          (Some \<lparr>size_pk = 1, port = 0x0D, channel = 0, data = [11]\<rparr>)
          (autonavEnterOverride nav_static))
     \<noteq> autonavExitOverride 7000 (autonavEnterOverride nav_static)"
  using override_off_only_kicks
    [of "\<lparr>size_pk = 1, port = 0x0D, channel = 0, data = [11]\<rparr>"
        7000 0 0 None "autonavEnterOverride nav_static"]
  by (simp add: byte_at_def autonavEnterOverride_def autonavExitOverride_def nav_static_def)

text \<open>
  C6. A packet on port 0x0D, channel 0 whose command code is \<open>SET_ALTITUDE_MM\<close> (5) and
  whose size covers the code and two payload bytes sets the target altitude to the
  little-endian 16-bit value of bytes 1 and 2, that is byte 1 plus 256 times byte 2.
  The setter stores every 16-bit value as it is, and every 16-bit value is the
  little-endian value of its two bytes, so no value from 0 to 65535 is rejected or
  changed. The witness is the payload [0xB0, 0x04], which gives 1200.
\<close>

theorem set_altitude_roundtrip:
  assumes "port pk = 0x0D" and "channel pk = 0" and "3 \<le> size_pk pk"
    and "byte_at (data pk) 0 = 5"
  shows "s_targetAltMm (fst (autonav_handle_packet now0 now1 now2 down (Some pk) s))
           = u16le (byte_at (data pk) 1) (byte_at (data pk) 2)
    \<and> unat (s_targetAltMm (fst (autonav_handle_packet now0 now1 now2 down (Some pk) s)))
           = unat (byte_at (data pk) 1) + 256 * unat (byte_at (data pk) 2)
    \<and> (\<forall>mm. s_targetAltMm (autonavSetTargetAltMm mm s) = mm)
    \<and> (\<forall>mm. u16le (ucast mm) (ucast (drop_bit 8 mm)) = mm)"
proof -
  have "\<not> size_pk pk < 1"
    using assms(3) by (simp add: word_less_nat_alt word_le_nat_alt)
  then have "s_targetAltMm (fst (autonav_handle_packet now0 now1 now2 down (Some pk) s))
           = u16le (byte_at (data pk) 1) (byte_at (data pk) 2)"
    using assms
    by (simp add: autonav_handle_packet_def crtp_defs Let_def autonavKickSafety_def
          autonavSetTargetAltMm_def)
  then show ?thesis
    by (simp add: unat_u16le u16le_bytes autonavSetTargetAltMm_def)
qed

theorem set_altitude_roundtrip_witness:
  "s_targetAltMm (fst (autonav_handle_packet 5 0 0 None
      (Some \<lparr>size_pk = 3, port = 0x0D, channel = 0, data = [5, 0xB0, 0x04]\<rparr>)
      (autonavSetTargetAltMm 0 nav_static))) = 1200"
  using set_altitude_roundtrip
    [of "\<lparr>size_pk = 3, port = 0x0D, channel = 0, data = [5, 0xB0, 0x04]\<rparr>"
        5 0 0 None "autonavSetTargetAltMm 0 nav_static"]
  by (simp add: byte_at_def u16le_def)



subsection \<open>The update step\<close>

lemma safetyCheck_alive:
  "msSince now0 (s_lastCmdUs s) \<le> 30000 \<Longrightarrow> safetyCheck now0 s = s"
  by (simp add: safetyCheck_def SAFETY_TIMEOUT_MS_def not_less[symmetric])

lemma safetyCheck_expired:
  "30000 < msSince now0 (s_lastCmdUs s) \<Longrightarrow>
     safetyCheck now0 s =
       (if s_state s = AUTONAV_LANDING \<or> s_state s = AUTONAV_LANDED then s
        else s\<lparr>s_state := AUTONAV_LANDING\<rparr>)"
  by (simp add: safetyCheck_def SAFETY_TIMEOUT_MS_def)

lemma zHold_frame:
  "s_state (snd (snd (zHoldThrustCmd down s))) = s_state s"
  "s_lastCmdUs (snd (snd (zHoldThrustCmd down s))) = s_lastCmdUs s"
  "s_obstEnterUs (snd (snd (zHoldThrustCmd down s))) = s_obstEnterUs s"
  "shapeStartUs (snd (snd (zHoldThrustCmd down s))) = shapeStartUs s"
  "s_shapeId (snd (snd (zHoldThrustCmd down s))) = s_shapeId s"
  "s_targetAltMm (snd (snd (zHoldThrustCmd down s))) = s_targetAltMm s"
  by (simp_all add: zHoldThrustCmd_def Let_def split: option.splits)

text \<open>The update step over the results of \<open>zHoldThrustCmd\<close>, with the branch chosen by
  the state that the safety check leaves.\<close>

lemma autonavUpdate_alt:
  "autonavUpdate now0 now1 down front tickMs s0 =
     (let s1 = safetyCheck now0 s0;
          thr = fst (zHoldThrustCmd down s1);
          s = snd (snd (zHoldThrustCmd down s1));
          blocked = (case front of None \<Rightarrow> False | Some frontMm \<Rightarrow> frontMm < OBSTACLE_THR_MM)
      in if s_state s1 = AUTONAV_OVERRIDE then (autonavKickSafety now1 s, None)
         else
           (case s_state s1 of
              AUTONAV_IDLE \<Rightarrow> (s, Some (sp_zero, tickMs))
            | AUTONAV_RUNNING \<Rightarrow>
                (if blocked
                 then (s\<lparr>s_state := AUTONAV_HOLD_OBSTACLE, s_obstEnterUs := now1\<rparr>,
                       Some (sp_zero, tickMs))
                 else (s, Some (shapeVelocity (s_shapeId s1)
                                  (ucast (msSince now1 (shapeStartUs s1)))
                                  (sp_zero\<lparr>thrust := thr\<rparr>), tickMs)))
            | AUTONAV_HOLD_OBSTACLE \<Rightarrow>
                (if \<not> blocked
                 then (s\<lparr>s_state := AUTONAV_RUNNING\<rparr>, Some (sp_zero\<lparr>thrust := thr\<rparr>, tickMs))
                 else if msSince now1 (s_obstEnterUs s1) > OBSTACLE_MAX_WAIT_MS
                   then (s\<lparr>s_state := AUTONAV_LANDING\<rparr>, Some (sp_zero\<lparr>thrust := thr\<rparr>, tickMs))
                 else (s, Some (sp_zero\<lparr>thrust := thr\<rparr>, tickMs)))
            | AUTONAV_LANDING \<Rightarrow> (s\<lparr>s_state := AUTONAV_LANDED\<rparr>, Some (sp_zero, tickMs))
            | AUTONAV_LANDED \<Rightarrow> (s, Some (sp_zero, tickMs))
            | AUTONAV_OVERRIDE \<Rightarrow> (s, Some (sp_zero, tickMs))))"
  using zHold_frame[of down "safetyCheck now0 s0"]
  by (cases "zHoldThrustCmd down (safetyCheck now0 s0)")
     (simp add: autonavUpdate_def Let_def commandLand_def sp_zero_def
        split: autonav_state_t.splits)

lemmas eval_defs = autonavUpdate_def safetyCheck_def zHoldThrustCmd_def msSince_def
  autonavStartShape_def autonavInit_def nav_static_def autonavKickSafety_def
  autonavEnterOverride_def autonavGetState_def commandLand_def shapeVelocity_def sp_zero_def
  float_to_u16_def SAFETY_TIMEOUT_MS_def OBSTACLE_THR_MM_def OBSTACLE_MAX_WAIT_MS_def
  AUTONAV_DEFAULT_ALT_MM_def LOOP_DT_S_def HOVER_THRUST_BASE_def Z_KP_def Z_KI_def Z_KD_def
  SEGMENT_TIME_MS_def SHAPE_SPEED_def Let_def



text \<open>
  C1, as the code has it. At an update call whose safety check finds more than 30000
  whole milliseconds since the last kick, the state after the check is \<open>LANDING\<close> or
  \<open>LANDED\<close>, the call emits the all-zero setpoint, and \<open>autonavGetState\<close> after the
  call is \<open>LANDED\<close>: the \<open>LANDING\<close> case of the same call has already moved on. The
  following call leaves the state \<open>LANDED\<close>, whatever its inputs.
\<close>

theorem safety_timeout_lands:
  assumes "30000 < msSince now0 (s_lastCmdUs s)"
  shows "autonavGetState (fst (autonavUpdate now0 now1 down front tickMs s)) = AUTONAV_LANDED
    \<and> snd (autonavUpdate now0 now1 down front tickMs s) = Some (sp_zero, tickMs)
    \<and> s_state (safetyCheck now0 s) \<in> {AUTONAV_LANDING, AUTONAV_LANDED}
    \<and> autonavGetState (fst (autonavUpdate now0' now1' down' front' tickMs'
          (fst (autonavUpdate now0 now1 down front tickMs s)))) = AUTONAV_LANDED"
proof -
  have a: "s_state (safetyCheck now0 s) \<in> {AUTONAV_LANDING, AUTONAV_LANDED}"
    using assms by (simp add: safetyCheck_expired)
  then have b: "s_state (fst (autonavUpdate now0 now1 down front tickMs s)) = AUTONAV_LANDED
     \<and> snd (autonavUpdate now0 now1 down front tickMs s) = Some (sp_zero, tickMs)"
    by (auto simp: autonavUpdate_alt Let_def zHold_frame)
  have c: "s_state (fst (autonavUpdate n0 n1 d f t s')) = AUTONAV_LANDED"
    if "s_state s' = AUTONAV_LANDED" for n0 n1 d f t s'
    using that by (simp add: autonavUpdate_alt Let_def zHold_frame safetyCheck_def)
  show ?thesis
    using a b c[of "fst (autonavUpdate now0 now1 down front tickMs s)"]
    by (simp add: autonavGetState_def)
qed

theorem safety_timeout_lands_witness:
  "30000 < msSince 30001000 (s_lastCmdUs (autonavStartShape 0 0 1 (autonavInit 0 nav_static)))
   \<and> autonavGetState (fst (autonavUpdate 30001000 30001002 (Some 1200) (Some 2000) 30001
        (autonavStartShape 0 0 1 (autonavInit 0 nav_static)))) = AUTONAV_LANDED
   \<and> autonavGetState (fst (autonavUpdate 30011000 30011002 (Some 1200) (Some 2000) 30011
        (fst (autonavUpdate 30001000 30001002 (Some 1200) (Some 2000) 30001
          (autonavStartShape 0 0 1 (autonavInit 0 nav_static)))))) = AUTONAV_LANDED"
proof -
  have late:
    "30000 < msSince 30001000 (s_lastCmdUs (autonavStartShape 0 0 1 (autonavInit 0 nav_static)))"
    by (simp add: autonavStartShape_def autonavKickSafety_def autonavInit_def msSince_def)
  show ?thesis
    using late safety_timeout_lands[OF late, of 30001002 "Some 1200" "Some 2000" 30001
        30011000 30011002 "Some 1200" "Some 2000" 30011]
    by simp
qed

text \<open>
  C1 as the spec states it fails. The engine is initialised and shape 1 started at
  clock 0, with no kick afterwards and valid sensors. The update call at 30000999
  microseconds finds 30000 ms elapsed and leaves \<open>RUNNING\<close>; the next one, at 30001000
  microseconds, is the first to find more than 30000 ms, and after it the state is
  \<open>LANDED\<close>, not \<open>LANDING\<close>.
\<close>

theorem safety_timeout_skips_landing:
  "msSince 30000999 (s_lastCmdUs (autonavStartShape 0 0 1 (autonavInit 0 nav_static))) = 30000
   \<and> autonavGetState (fst (autonavUpdate 30000999 30000999 (Some 1200) (Some 2000) 30000
        (autonavStartShape 0 0 1 (autonavInit 0 nav_static)))) = AUTONAV_RUNNING
   \<and> msSince 30001000 (s_lastCmdUs (autonavStartShape 0 0 1 (autonavInit 0 nav_static))) = 30001
   \<and> autonavGetState (fst (autonavUpdate 30001000 30001000 (Some 1200) (Some 2000) 30001
        (fst (autonavUpdate 30000999 30000999 (Some 1200) (Some 2000) 30000
          (autonavStartShape 0 0 1 (autonavInit 0 nav_static)))))) = AUTONAV_LANDED
   \<and> autonavGetState (fst (autonavUpdate 30001000 30001000 (Some 1200) (Some 2000) 30001
        (fst (autonavUpdate 30000999 30000999 (Some 1200) (Some 2000) 30000
          (autonavStartShape 0 0 1 (autonavInit 0 nav_static)))))) \<noteq> AUTONAV_LANDING"
  by (simp add: eval_defs)

text \<open>One update call in override while the safety timer is alive.\<close>

lemma override_step:
  assumes "s_state s = AUTONAV_OVERRIDE" and "msSince now0 (s_lastCmdUs s) \<le> 30000"
  shows "s_state (fst (autonavUpdate now0 now1 down front tickMs s)) = AUTONAV_OVERRIDE"
    and "s_lastCmdUs (fst (autonavUpdate now0 now1 down front tickMs s)) = now1"
    and "snd (autonavUpdate now0 now1 down front tickMs s) = None"
  using assms
  by (simp_all add: autonavUpdate_alt Let_def safetyCheck_alive zHold_frame autonavKickSafety_def)

lemma autonavUpdates_Cons:
  "fst (autonavUpdates ((now0, now1, down, front, tickMs) # ins) s)
     = fst (autonavUpdates ins (fst (autonavUpdate now0 now1 down front tickMs s)))"
  "snd (autonavUpdates ((now0, now1, down, front, tickMs) # ins) s)
     = snd (autonavUpdate now0 now1 down front tickMs s)
       # snd (autonavUpdates ins (fst (autonavUpdate now0 now1 down front tickMs s)))"
  by (simp_all add: case_prod_beta)

text \<open>
  C5, as the code has it. Let the engine be in \<open>OVERRIDE\<close> and let update calls follow
  one another so that each call's safety check finds at most 30000 ms since the last
  kick (the first since the kick before the sequence, each later one since the kick of
  the call before it). Then every call emits no setpoint, the state stays \<open>OVERRIDE\<close>
  after the whole sequence, however long it lasts, and the safety timer holds the clock
  value of the last call's kick. No external kick is needed.
\<close>

theorem override_kept_alive:
  assumes "s_state s = AUTONAV_OVERRIDE" and "kept_alive (s_lastCmdUs s) ins"
  shows "autonavGetState (fst (autonavUpdates ins s)) = AUTONAV_OVERRIDE
    \<and> snd (autonavUpdates ins s) = replicate (length ins) None
    \<and> s_lastCmdUs (fst (autonavUpdates ins s))
         = (if ins = [] then s_lastCmdUs s else fst (snd (last ins)))"
  using assms
proof (induction ins arbitrary: s)
  case Nil
  then show ?case by (simp add: autonavGetState_def)
next
  case (Cons i ins)
  obtain now0 now1 down front tickMs where i: "i = (now0, now1, down, front, tickMs)"
    by (cases i) auto
  let ?s' = "fst (autonavUpdate now0 now1 down front tickMs s)"
  have alive: "msSince now0 (s_lastCmdUs s) \<le> 30000" and rest: "kept_alive now1 ins"
    using Cons.prems(2) by (simp_all add: i SAFETY_TIMEOUT_MS_def)
  have st: "s_state ?s' = AUTONAV_OVERRIDE" and kick: "s_lastCmdUs ?s' = now1"
    and out: "snd (autonavUpdate now0 now1 down front tickMs s) = None"
    using override_step[OF Cons.prems(1) alive] by simp_all
  have ih: "autonavGetState (fst (autonavUpdates ins ?s')) = AUTONAV_OVERRIDE
    \<and> snd (autonavUpdates ins ?s') = replicate (length ins) None
    \<and> s_lastCmdUs (fst (autonavUpdates ins ?s'))
         = (if ins = [] then s_lastCmdUs ?s' else fst (snd (last ins)))"
    using Cons.IH[OF st] rest kick by simp
  show ?case
    using ih out kick by (simp add: i autonavUpdates_Cons del: autonavUpdates.simps)
qed

theorem override_kept_alive_witness:
  "s_state (autonavEnterOverride (autonavInit 0 nav_static)) = AUTONAV_OVERRIDE
   \<and> kept_alive (s_lastCmdUs (autonavEnterOverride (autonavInit 0 nav_static)))
        [(20000000, 20000001, Some 1200, Some 500, 20000),
         (45000000, 45000001, None, None, 45000),
         (70000000, 70000001, Some 1200, Some 2000, 70000)]
   \<and> autonavGetState (fst (autonavUpdates
        [(20000000, 20000001, Some 1200, Some 500, 20000),
         (45000000, 45000001, None, None, 45000),
         (70000000, 70000001, Some 1200, Some 2000, 70000)]
        (autonavEnterOverride (autonavInit 0 nav_static)))) = AUTONAV_OVERRIDE
   \<and> snd (autonavUpdates
        [(20000000, 20000001, Some 1200, Some 500, 20000),
         (45000000, 45000001, None, None, 45000),
         (70000000, 70000001, Some 1200, Some 2000, 70000)]
        (autonavEnterOverride (autonavInit 0 nav_static))) = [None, None, None]
   \<and> s_lastCmdUs (fst (autonavUpdates
        [(20000000, 20000001, Some 1200, Some 500, 20000),
         (45000000, 45000001, None, None, 45000),
         (70000000, 70000001, Some 1200, Some 2000, 70000)]
        (autonavEnterOverride (autonavInit 0 nav_static)))) = 70000001"
proof -
  have st: "s_state (autonavEnterOverride (autonavInit 0 nav_static)) = AUTONAV_OVERRIDE"
    by (simp add: autonavEnterOverride_def)
  have ka: "kept_alive (s_lastCmdUs (autonavEnterOverride (autonavInit 0 nav_static)))
        [(20000000, 20000001, Some 1200, Some 500, 20000),
         (45000000, 45000001, None, None, 45000),
         (70000000, 70000001, Some 1200, Some 2000, 70000)]"
    by (simp add: autonavEnterOverride_def autonavInit_def msSince_def SAFETY_TIMEOUT_MS_def)
  show ?thesis
    using st ka override_kept_alive[OF st ka]
    by (simp add: numeral_3_eq_3)
qed

text \<open>
  C5 as the spec states it fails: not every update call in \<open>OVERRIDE\<close> emits no
  setpoint. With the last kick at 1 s and the next update call at 40 s, the call emits
  the all-zero setpoint and leaves the state \<open>LANDED\<close>.
\<close>

theorem override_update_forced_landing:
  "s_state (autonavKickSafety 1000000 (autonavEnterOverride nav_static)) = AUTONAV_OVERRIDE
   \<and> snd (autonavUpdate 40000000 40000003 (Some 1200) None 40000
        (autonavKickSafety 1000000 (autonavEnterOverride nav_static))) = Some (sp_zero, 40000)
   \<and> autonavGetState (fst (autonavUpdate 40000000 40000003 (Some 1200) None 40000
        (autonavKickSafety 1000000 (autonavEnterOverride nav_static)))) = AUTONAV_LANDED"
  by (simp add: eval_defs)




subsection \<open>The square trajectory\<close>

lemma seg_period:
  assumes "unat (t :: 32 word) + 12000 < 2 ^ 32"
  shows "(t + 12000) div 3000 mod 4 = t div 3000 mod 4"
proof -
  have add: "unat (t + 12000) = unat t + 12000"
    using assms by (simp add: unat_add_lem[THEN iffD1])
  have nat: "(n + 12000) div 3000 mod 4 = n div 3000 mod 4" for n :: nat
  proof -
    have "(n + 4 * 3000) div 3000 = n div 3000 + 4"
      using div_mult_self1 [of 3000 n 4] by simp
    then show ?thesis by simp
  qed
  have "unat ((t + 12000) div 3000 mod 4) = (unat t + 12000) div 3000 mod 4"
    by (simp add: unat_div unat_mod add)
  also have "\<dots> = unat t div 3000 mod 4"
    by (rule nat)
  also have "\<dots> = unat (t div 3000 mod 4)"
    by (simp add: unat_div unat_mod)
  finally show ?thesis
    by (simp only: word_unat_eq_iff)
qed


lemma square_period:
  assumes "unat (t :: 32 word) + 12000 < 2 ^ 32"
  shows "shapeVelocity 1 (t + 12000) sp = shapeVelocity 1 t sp"
  using seg_period[OF assms]
  by (simp add: shapeVelocity_def SEGMENT_TIME_MS_def Let_def)

lemma square_samples:
  "shapeVelocity 1 0 sp = sp\<lparr>velocity_x := 0.2, velocity_y := 0\<rparr>"
  "shapeVelocity 1 3000 sp = sp\<lparr>velocity_x := 0, velocity_y := 0.2\<rparr>"
  "shapeVelocity 1 6000 sp = sp\<lparr>velocity_x := - 0.2, velocity_y := 0\<rparr>"
  "shapeVelocity 1 9000 sp = sp\<lparr>velocity_x := 0, velocity_y := - 0.2\<rparr>"
  "shapeVelocity 1 12000 sp = sp\<lparr>velocity_x := 0.2, velocity_y := 0\<rparr>"
  by (simp_all add: shapeVelocity_def SEGMENT_TIME_MS_def SHAPE_SPEED_def Let_def)

text \<open>
  C7, as the code has it. In \<open>RUNNING\<close> with shape 1 (square), the timer alive and the
  path not blocked, the emitted setpoint is the hold thrust with the velocity that
  \<open>shapeVelocity\<close> gives for the elapsed shape time in milliseconds, truncated to 32
  bits. At 0, 3000, 6000, 9000 and 12000 ms that velocity is (0.2, 0), (0, 0.2),
  (-0.2, 0), (0, -0.2) and (0.2, 0) again. The velocity has period 12000 ms wherever
  the 32-bit millisecond count does not wrap: for every \<open>t\<close> with
  \<open>t + 12000 < 2 ^ 32\<close>.
\<close>

theorem square_trajectory:
  "(s_state s = AUTONAV_RUNNING \<and> s_shapeId s = 1 \<and> msSince now0 (s_lastCmdUs s) \<le> 30000
      \<and> (case front of None \<Rightarrow> True | Some frontMm \<Rightarrow> 800 \<le> frontMm) \<longrightarrow>
      snd (autonavUpdate now0 now1 down front tickMs s)
        = Some (shapeVelocity 1 (ucast (msSince now1 (shapeStartUs s)))
                  (sp_zero\<lparr>thrust := fst (zHoldThrustCmd down s)\<rparr>), tickMs))
   \<and> shapeVelocity 1 0 sp = sp\<lparr>velocity_x := 0.2, velocity_y := 0\<rparr>
   \<and> shapeVelocity 1 3000 sp = sp\<lparr>velocity_x := 0, velocity_y := 0.2\<rparr>
   \<and> shapeVelocity 1 6000 sp = sp\<lparr>velocity_x := - 0.2, velocity_y := 0\<rparr>
   \<and> shapeVelocity 1 9000 sp = sp\<lparr>velocity_x := 0, velocity_y := - 0.2\<rparr>
   \<and> shapeVelocity 1 12000 sp = sp\<lparr>velocity_x := 0.2, velocity_y := 0\<rparr>
   \<and> (\<forall>t. unat t + 12000 < 2 ^ 32 \<longrightarrow>
          shapeVelocity 1 (t + 12000) sp = shapeVelocity 1 t sp)"
proof -
  have upd: "snd (autonavUpdate now0 now1 down front tickMs s)
        = Some (shapeVelocity 1 (ucast (msSince now1 (shapeStartUs s)))
                  (sp_zero\<lparr>thrust := fst (zHoldThrustCmd down s)\<rparr>), tickMs)"
    if "s_state s = AUTONAV_RUNNING" "s_shapeId s = 1" "msSince now0 (s_lastCmdUs s) \<le> 30000"
       "case front of None \<Rightarrow> True | Some frontMm \<Rightarrow> 800 \<le> frontMm"
    using that
    by (auto simp: autonavUpdate_alt Let_def safetyCheck_alive OBSTACLE_THR_MM_def
          split: option.splits)
  have per: "\<forall>t. unat t + 12000 < 2 ^ 32 \<longrightarrow>
          shapeVelocity 1 (t + 12000) sp = shapeVelocity 1 t sp"
    using square_period by blast
  show ?thesis
    using upd per square_samples[of sp] by blast
qed

theorem square_trajectory_witness:
  "s_state (autonavStartShape 0 0 1 (autonavInit 0 nav_static)) = AUTONAV_RUNNING
   \<and> s_shapeId (autonavStartShape 0 0 1 (autonavInit 0 nav_static)) = 1
   \<and> msSince 5000000 (s_lastCmdUs (autonavStartShape 0 0 1 (autonavInit 0 nav_static))) \<le> 30000
   \<and> snd (autonavUpdate 5000000 6000000 (Some 1200) (Some 2000) 11
        (autonavStartShape 0 0 1 (autonavInit 0 nav_static)))
     = Some (sp_zero\<lparr>velocity_x := - 0.2, velocity_y := 0, thrust := 30000\<rparr>, 11)
   \<and> unat (2500 :: 32 word) + 12000 < 2 ^ 32
   \<and> shapeVelocity 1 (2500 + 12000) sp_zero = shapeVelocity 1 2500 sp_zero"
proof -
  let ?s = "autonavStartShape 0 0 1 (autonavInit 0 nav_static)"
  note inst = square_trajectory[of ?s 5000000 "Some 2000" 6000000 "Some 1200" 11 sp_zero]
  have h1: "s_state ?s = AUTONAV_RUNNING" and h2: "s_shapeId ?s = 1"
    and h3: "msSince 5000000 (s_lastCmdUs ?s) \<le> 30000"
    by (simp_all add: autonavStartShape_def autonavKickSafety_def autonavInit_def msSince_def)
  have h4: "case Some (2000 :: 16 word) of None \<Rightarrow> True | Some frontMm \<Rightarrow> 800 \<le> frontMm"
    by simp
  have h5: "unat (2500 :: 32 word) + 12000 < 2 ^ 32"
    by simp
  have "snd (autonavUpdate 5000000 6000000 (Some 1200) (Some 2000) 11 ?s)
        = Some (shapeVelocity 1 (ucast (msSince 6000000 (shapeStartUs ?s)))
                  (sp_zero\<lparr>thrust := fst (zHoldThrustCmd (Some 1200) ?s)\<rparr>), 11)"
    using inst h1 h2 h3 h4 by blast
  also have "\<dots> = Some (sp_zero\<lparr>velocity_x := - 0.2, velocity_y := 0, thrust := 30000\<rparr>, 11)"
    by (simp add: eval_defs)
  finally have upd: "snd (autonavUpdate 5000000 6000000 (Some 1200) (Some 2000) 11 ?s)
     = Some (sp_zero\<lparr>velocity_x := - 0.2, velocity_y := 0, thrust := 30000\<rparr>, 11)" .
  have per: "shapeVelocity 1 (2500 + 12000) sp_zero = shapeVelocity 1 2500 sp_zero"
    using inst h5 by blast
  show ?thesis
    using h1 h2 h3 h5 upd per by blast
qed

text \<open>
  C7 as the spec states it fails at the wrap of the 32-bit millisecond count. With the
  shape started at clock 0 and the safety timer just kicked, the update call at
  4294955296 ms of shape time emits velocity (0, -0.2); the call 12000 ms later, at
  4294967296 ms = 2 ^ 32 ms, sees \<open>tMs = 0\<close> and emits (0.2, 0).
\<close>

theorem square_phase_jumps_at_wrap:
  "msSince 4294955296000 0 = 4294955296
   \<and> msSince 4294967296000 0 = 4294955296 + 12000
   \<and> snd (autonavUpdate 4294955296000 4294955296000 (Some 1200) (Some 2000) 7
        (autonavKickSafety 4294955296000 (autonavStartShape 0 0 1 (autonavInit 0 nav_static))))
       = Some (sp_zero\<lparr>velocity_x := 0, velocity_y := - 0.2, thrust := 30000\<rparr>, 7)
   \<and> snd (autonavUpdate 4294967296000 4294967296000 (Some 1200) (Some 2000) 7
        (autonavKickSafety 4294967296000 (autonavStartShape 0 0 1 (autonavInit 0 nav_static))))
       = Some (sp_zero\<lparr>velocity_x := 0.2, velocity_y := 0, thrust := 30000\<rparr>, 7)"
  by (simp add: eval_defs)

end
